theory Spec2Isabelle
  imports Complex_Main "HOL-Library.AList"
begin

section \<open>Data model\<close>

text \<open>
  The calculator of \<^verbatim>\<open>src/src/reai_calculator.py\<close> works on pandas tables. A table is
  modelled as the list of its columns in column order, each column holding one value per
  row. Python floats are idealised as reals: NaN, infinities and rounding are outside the
  model. Integers are 64-bit, with the wrap-around of their arithmetic written out. A cell
  is a float, an integer or a string; a column of the model is homogeneous.
\<close>

datatype column = NumCol "real list" | IntCol "int list" | StrCol "string list"

type_synonym frame = "(string \<times> column) list"

text \<open>A Python dict of weights, in insertion order.\<close>

type_synonym weight_dict = "(string \<times> real) list"

text \<open>
  The exceptions the calculator can raise. \<open>WeightsValueError total\<close> is the
  \<^verbatim>\<open>ValueError(f"Weights must sum to 1.0, got {total}")\<close> of \<^verbatim>\<open>_validate_weights\<close>;
  \<open>ValueError\<close> carries a message that is a plain string. \<open>KeyErrorNotInIndex\<close> is
  the \<^verbatim>\<open>KeyError\<close> of a selection by a list of labels, with the labels not found;
  \<open>LengthValueError m n\<close> is pandas' \<^verbatim>\<open>ValueError\<close> for assigning a list of \<open>m\<close>
  values as a column of a table with \<open>n\<close> rows.
\<close>

datatype error =
    KeyError string
  | KeyErrorNotInIndex "string list"
  | TypeError
  | ValueError string
  | WeightsValueError real
  | LengthValueError nat nat

record REAICalculator =
  default_weights :: weight_dict
  weights :: weight_dict

section \<open>Weight validation and construction\<close>

text \<open>
  \<^verbatim>\<open>numpy.isclose(a, b)\<close> with its default tolerances \<^verbatim>\<open>rtol=1e-05\<close> and
  \<^verbatim>\<open>atol=1e-08\<close>: \<^verbatim>\<open>absolute(a - b) <= (atol + rtol * absolute(b))\<close>.
\<close>

definition rtol :: real where
  "rtol = 1 / 100000"

definition atol :: real where
  "atol = 1 / 100000000"

definition isclose :: "real \<Rightarrow> real \<Rightarrow> bool" where
  "isclose a b = (\<bar>a - b\<bar> \<le> atol + rtol * \<bar>b\<bar>)"

text \<open>\<^verbatim>\<open>sum(d.values())\<close>\<close>

definition sum_values :: "weight_dict \<Rightarrow> real" where
  "sum_values d = sum_list (map snd d)"

text \<open>\<^verbatim>\<open>_validate_weights\<close>: \<open>Some e\<close> is the exception raised, \<open>None\<close> a normal return.\<close>

definition validate_weights :: "REAICalculator \<Rightarrow> error option" where
  "validate_weights self =
     (let total = sum_values (weights self)
      in if \<not> isclose total 1 then Some (WeightsValueError total) else None)"

text \<open>
  \<^verbatim>\<open>__init__(self, weights=None)\<close>. The argument is \<open>None\<close> or a dict; both \<open>None\<close> and
  the empty dict are falsy, so \<^verbatim>\<open>weights if weights else self.default_weights\<close> takes the
  defaults for them.
\<close>

definition init :: "weight_dict option \<Rightarrow> error + REAICalculator" where
  "init ws =
     (let dw = [(''transportation'', 30 / 100), (''labor_market'', 35 / 100),
                (''licensing'', 20 / 100), (''policy'', 15 / 100)];
          w = (case ws of None \<Rightarrow> dw | Some d \<Rightarrow> if d \<noteq> [] then d else dw);
          self = \<lparr>default_weights = dw, weights = w\<rparr>
      in case validate_weights self of Some e \<Rightarrow> Inl e | None \<Rightarrow> Inr self)"

section \<open>Normalisation\<close>

text \<open>
  \<^verbatim>\<open>normalize_score\<close> on a numeric series. On an empty series pandas' \<^verbatim>\<open>min()\<close> and
  \<^verbatim>\<open>max()\<close> are NaN, the test \<^verbatim>\<open>max_val == min_val\<close> is false and the elementwise
  arithmetic returns an empty series.
\<close>

definition normalize_num :: "real list \<Rightarrow> bool \<Rightarrow> real list" where
  "normalize_num series reverse =
     (if series = [] then []
      else
        let min_val = Min (set series);
            max_val = Max (set series)
        in if max_val = min_val then replicate (length series) 50
           else
             let normalized = map (\<lambda>v. (v - min_val) / (max_val - min_val) * 100) series
             in if reverse then map (\<lambda>s. 100 - s) normalized else normalized)"

text \<open>
  An integer column holds 64-bit signed integers, and arithmetic between two of them stays
  in 64 bits: a result outside \<open>-2^63 .. 2^63 - 1\<close> wraps around.
\<close>

definition wrap64 :: "int \<Rightarrow> int" where
  "wrap64 n = (n + 2 ^ 63) mod 2 ^ 64 - 2 ^ 63"

text \<open>
  \<^verbatim>\<open>normalize_score\<close> on an integer series: \<^verbatim>\<open>series - min_val\<close> and
  \<^verbatim>\<open>max_val - min_val\<close> are 64-bit subtractions, and only the division promotes the two
  differences to floats.
\<close>

definition normalize_int :: "int list \<Rightarrow> bool \<Rightarrow> real list" where
  "normalize_int series reverse =
     (if series = [] then []
      else
        let min_val = Min (set series);
            max_val = Max (set series)
        in if max_val = min_val then replicate (length series) 50
           else
             let normalized =
                   map (\<lambda>v. real_of_int (wrap64 (v - min_val)) /
                            real_of_int (wrap64 (max_val - min_val)) * 100) series
             in if reverse then map (\<lambda>s. 100 - s) normalized else normalized)"

text \<open>
  \<^verbatim>\<open>normalize_score\<close> on a column. On a column of strings \<^verbatim>\<open>min()\<close> and \<^verbatim>\<open>max()\<close>
  compare the strings, so a constant column still gets 50.0 everywhere, and any other
  non-empty one raises \<^verbatim>\<open>TypeError\<close> at \<^verbatim>\<open>series - min_val\<close>.
\<close>

fun normalize_score :: "column \<Rightarrow> bool \<Rightarrow> error + real list" where
  "normalize_score (NumCol xs) reverse = Inr (normalize_num xs reverse)"
| "normalize_score (IntCol ns) reverse = Inr (normalize_int ns reverse)"
| "normalize_score (StrCol ss) reverse =
     (if ss = [] then Inr []
      else if (\<forall>s \<in> set ss. s = hd ss) then Inr (replicate (length ss) 50)
      else Inl TypeError)"

section \<open>Column access and series arithmetic\<close>

definition err_bind :: "error + 'a \<Rightarrow> ('a \<Rightarrow> error + 'b) \<Rightarrow> error + 'b" where
  "err_bind m f = (case m of Inl e \<Rightarrow> Inl e | Inr x \<Rightarrow> f x)"

text \<open>\<^verbatim>\<open>df[name]\<close> and \<^verbatim>\<open>weights[key]\<close>: a missing label raises \<^verbatim>\<open>KeyError\<close>.\<close>

definition getitem :: "frame \<Rightarrow> string \<Rightarrow> error + column" where
  "getitem df name = (case map_of df name of None \<Rightarrow> Inl (KeyError name) | Some c \<Rightarrow> Inr c)"

definition weight_of :: "weight_dict \<Rightarrow> string \<Rightarrow> error + real" where
  "weight_of w key = (case map_of w key of None \<Rightarrow> Inl (KeyError key) | Some k \<Rightarrow> Inr k)"

text \<open>
  A column as an operand of float arithmetic: integers are promoted, a string cell raises
  \<^verbatim>\<open>TypeError\<close> (a column without rows has no cell to raise it).
\<close>

fun as_float :: "column \<Rightarrow> error + real list" where
  "as_float (NumCol xs) = Inr xs"
| "as_float (IntCol ns) = Inr (map real_of_int ns)"
| "as_float (StrCol ss) = (if ss = [] then Inr [] else Inl TypeError)"

text \<open>
  \<^verbatim>\<open>100 - series\<close>: a float series stays float, an integer series stays 64-bit integer,
  a string cell raises \<^verbatim>\<open>TypeError\<close>.
\<close>

fun hundred_minus :: "column \<Rightarrow> error + column" where
  "hundred_minus (NumCol xs) = Inr (NumCol (map (\<lambda>v. 100 - v) xs))"
| "hundred_minus (IntCol ns) = Inr (IntCol (map (\<lambda>n. wrap64 (100 - n)) ns))"
| "hundred_minus (StrCol ss) = (if ss = [] then Inr (StrCol []) else Inl TypeError)"

text \<open>Elementwise sum of two series over the same index.\<close>

definition add_series :: "real list \<Rightarrow> real list \<Rightarrow> real list" where
  "add_series xs ys = map2 (+) xs ys"

section \<open>Component scorers\<close>

text \<open>The scorers take \<^verbatim>\<open>self\<close> only to call \<^verbatim>\<open>normalize_score\<close>, which does not read it.\<close>

definition calculate_transportation_score :: "frame \<Rightarrow> error + real list" where
  "calculate_transportation_score df =
     err_bind (getitem df ''pct_no_vehicle'') (\<lambda>c1.
     err_bind (hundred_minus c1) (\<lambda>vehicle_available.
     err_bind (normalize_score vehicle_available False) (\<lambda>vehicle_score.
     err_bind (getitem df ''avg_commute_time'') (\<lambda>c2.
     err_bind (normalize_score c2 True) (\<lambda>commute_score.
     err_bind (getitem df ''pct_broadband'') (\<lambda>c3.
     err_bind (normalize_score c3 False) (\<lambda>broadband_score.
     Inr (map (\<lambda>s. s / 3)
            (add_series (add_series vehicle_score commute_score) broadband_score)))))))))"

definition calculate_labor_market_score :: "frame \<Rightarrow> error + real list" where
  "calculate_labor_market_score df =
     err_bind (getitem df ''unemployment_rate'') (\<lambda>c1.
     err_bind (normalize_score c1 True) (\<lambda>unemployment_score.
     err_bind (getitem df ''employment_growth'') (\<lambda>c2.
     err_bind (normalize_score c2 False) (\<lambda>employment_growth_score.
     err_bind (getitem df ''poverty_rate'') (\<lambda>c3.
     err_bind (normalize_score c3 True) (\<lambda>poverty_score.
     Inr (add_series
            (add_series (map (\<lambda>s. s * (40 / 100)) unemployment_score)
                        (map (\<lambda>s. s * (30 / 100)) employment_growth_score))
            (map (\<lambda>s. s * (30 / 100)) poverty_score))))))))"

definition calculate_licensing_score :: "frame \<Rightarrow> error + real list" where
  "calculate_licensing_score df =
     err_bind (getitem df ''licensing_burden_index'') (\<lambda>c. normalize_score c True)"

definition calculate_policy_score :: "frame \<Rightarrow> error + real list" where
  "calculate_policy_score df =
     err_bind (getitem df ''ban_the_box_score'') (\<lambda>c1.
     err_bind (normalize_score c1 False) (\<lambda>btb_score.
     err_bind (getitem df ''fair_chance_score'') (\<lambda>c2.
     err_bind (normalize_score c2 False) (\<lambda>fair_chance_score.
     Inr (map (\<lambda>s. s / 2) (add_series btb_score fair_chance_score))))))"

section \<open>Composite and ranking\<close>

text \<open>
  One product \<^verbatim>\<open>df[col] * weights[key]\<close>: Python evaluates the column, then the weight,
  then multiplies.
\<close>

definition weighted_term :: "frame \<Rightarrow> weight_dict \<Rightarrow> string \<Rightarrow> string \<Rightarrow> error + real list" where
  "weighted_term df w col key =
     err_bind (getitem df col) (\<lambda>c.
     err_bind (weight_of w key) (\<lambda>k.
     err_bind (as_float c) (\<lambda>xs.
     Inr (map (\<lambda>x. x * k) xs))))"

text \<open>
  The weighted sum of the four component columns, the expression of lines 209--214 of
  \<^verbatim>\<open>calculate_reai\<close> (with \<^verbatim>\<open>self.weights\<close>) and of lines 248--253 of
  \<^verbatim>\<open>sensitivity_analysis\<close> (with the scenario's weights), evaluated left to right.
\<close>

definition weighted_sum :: "frame \<Rightarrow> weight_dict \<Rightarrow> error + real list" where
  "weighted_sum df w =
     err_bind (weighted_term df w ''transportation_score'' ''transportation'') (\<lambda>t1.
     err_bind (weighted_term df w ''labor_market_score'' ''labor_market'') (\<lambda>t2.
     err_bind (weighted_term df w ''licensing_score'' ''licensing'') (\<lambda>t3.
     err_bind (weighted_term df w ''policy_score'' ''policy'') (\<lambda>t4.
     Inr (add_series (add_series (add_series t1 t2) t3) t4)))))"

text \<open>
  \<^verbatim>\<open>series.rank(ascending=False, method='min').astype(int)\<close>: the values are sorted in
  descending order and each value gets the 1-based position of the first member of its
  group of equals.
\<close>

definition rank_min_desc :: "real list \<Rightarrow> int list" where
  "rank_min_desc series =
     (let sorted_desc = rev (sort series)
      in map (\<lambda>v. 1 + int (length (takeWhile (\<lambda>u. u \<noteq> v) sorted_desc))) series)"

section \<open>The index engine\<close>

text \<open>
  Tables are objects: a variable holds a reference, and \<^verbatim>\<open>df[name] = values\<close> changes the
  object every holder of the reference sees. The store maps references to tables. An
  assignment replaces a column of that name where it stands, or appends a new one.
\<close>

type_synonym ref = nat

type_synonym store = "ref \<Rightarrow> frame"

definition setitem :: "store \<Rightarrow> ref \<Rightarrow> string \<Rightarrow> column \<Rightarrow> store" where
  "setitem h r name c = h(r := AList.update name c (h r))"

text \<open>
  \<^verbatim>\<open>calculate_reai(self, df)\<close>. The result is the returned reference or the exception,
  together with the store it leaves behind: the columns attached before an exception stay
  attached.
\<close>

definition calculate_reai :: "REAICalculator \<Rightarrow> ref \<Rightarrow> store \<Rightarrow> (error + ref) \<times> store" where
  "calculate_reai self df h =
     (case calculate_transportation_score (h df) of Inl e \<Rightarrow> (Inl e, h) | Inr ts \<Rightarrow>
     (let h1 = setitem h df ''transportation_score'' (NumCol ts) in
     (case calculate_labor_market_score (h1 df) of Inl e \<Rightarrow> (Inl e, h1) | Inr ls \<Rightarrow>
     (let h2 = setitem h1 df ''labor_market_score'' (NumCol ls) in
     (case calculate_licensing_score (h2 df) of Inl e \<Rightarrow> (Inl e, h2) | Inr lic \<Rightarrow>
     (let h3 = setitem h2 df ''licensing_score'' (NumCol lic) in
     (case calculate_policy_score (h3 df) of Inl e \<Rightarrow> (Inl e, h3) | Inr ps \<Rightarrow>
     (let h4 = setitem h3 df ''policy_score'' (NumCol ps) in
     (case weighted_sum (h4 df) (weights self) of Inl e \<Rightarrow> (Inl e, h4) | Inr reai \<Rightarrow>
     (let h5 = setitem h4 df ''REAI'' (NumCol reai) in
     (case err_bind (getitem (h5 df) ''REAI'') as_float of Inl e \<Rightarrow> (Inl e, h5) | Inr v \<Rightarrow>
     (let h6 = setitem h5 df ''REAI_rank'' (IntCol (rank_min_desc v)) in
      (Inr df, h6)))))))))))))"



section \<open>Summary statistics\<close>

text \<open>
  The statistics of pandas' \<^verbatim>\<open>describe()\<close> for one numeric column; \<open>None\<close> is NaN. The
  standard deviation is the sample one (\<^verbatim>\<open>ddof=1\<close>), the percentiles interpolate linearly
  between the two nearest order statistics.
\<close>

definition mean :: "real list \<Rightarrow> real option" where
  "mean xs = (if xs = [] then None else Some (sum_list xs / real (length xs)))"

definition std :: "real list \<Rightarrow> real option" where
  "std xs =
     (if length xs \<le> 1 then None
      else
        let m = sum_list xs / real (length xs)
        in Some (sqrt (sum_list (map (\<lambda>x. (x - m)\<^sup>2) xs) / real (length xs - 1))))"

definition quantile :: "real \<Rightarrow> real list \<Rightarrow> real option" where
  "quantile q xs =
     (if xs = [] then None
      else
        let s = sort xs;
            pos = q * real (length xs - 1);
            lo = nat \<lfloor>pos\<rfloor>;
            hi = min (lo + 1) (length xs - 1)
        in Some (s ! lo + (s ! hi - s ! lo) * (pos - real lo)))"

definition describe :: "real list \<Rightarrow> (string \<times> real option) list" where
  "describe xs =
     [(''count'', Some (real (length xs))),
      (''mean'', mean xs),
      (''std'', std xs),
      (''min'', if xs = [] then None else Some (Min (set xs))),
      (''25%'', quantile (25 / 100) xs),
      (''50%'', quantile (50 / 100) xs),
      (''75%'', quantile (75 / 100) xs),
      (''max'', if xs = [] then None else Some (Max (set xs)))]"

fun float_view :: "column \<Rightarrow> real list option" where
  "float_view (NumCol xs) = Some xs"
| "float_view (IntCol ns) = Some (map real_of_int ns)"
| "float_view (StrCol ss) = None"

text \<open>A summary table: one row per described column, each row a list of labelled cells.\<close>

type_synonym summary = "(string \<times> (string \<times> real option) list) list"

text \<open>
  \<^verbatim>\<open>get_summary_statistics(self, df)\<close>. \<^verbatim>\<open>df[score_columns]\<close> raises when a label is
  missing. \<^verbatim>\<open>describe()\<close> keeps the numeric columns of the selection; when none is numeric
  it describes the five string columns with other statistics, and the final selection of
  \<^verbatim>\<open>mean\<close>, \<^verbatim>\<open>std\<close>, ... raises. The weight column is the list
  \<^verbatim>\<open>[1.0] + [self.weights[k] for k in self.weights.keys()]\<close>, assigned by position; its
  length must be the number of rows. The last line selects the columns returned.
\<close>

definition get_summary_statistics :: "REAICalculator \<Rightarrow> frame \<Rightarrow> error + summary" where
  "get_summary_statistics self df =
     (let score_columns = [''REAI'', ''transportation_score'', ''labor_market_score'',
                           ''licensing_score'', ''policy_score''];
          missing = filter (\<lambda>c. map_of df c = None) score_columns;
          selected = concat (map (\<lambda>c. case map_of df c of None \<Rightarrow> [] | Some col \<Rightarrow> [(c, col)])
                              score_columns);
          numeric = concat (map (\<lambda>(c, col). case float_view col of None \<Rightarrow> [] | Some xs \<Rightarrow> [(c, xs)])
                             selected);
          weight = 1 # map snd (weights self);
          out_columns = [''mean'', ''std'', ''min'', ''25%'', ''50%'', ''75%'', ''max'']
      in if missing \<noteq> [] then Inl (KeyErrorNotInIndex missing)
         else if numeric = [] then
           (if length weight \<noteq> length selected
            then Inl (LengthValueError (length weight) (length selected))
            else Inl (KeyErrorNotInIndex out_columns))
         else if length weight \<noteq> length numeric
         then Inl (LengthValueError (length weight) (length numeric))
         else Inr (map (\<lambda>((c, xs), wt).
                     (c, (''weight'', Some wt) #
                         filter (\<lambda>(label, v). label \<in> set out_columns) (describe xs)))
                   (zip numeric weight)))"

section \<open>Auxiliary notions and a running example\<close>

text \<open>All elements of a series lie in a closed interval.\<close>

definition all_between :: "real \<Rightarrow> real \<Rightarrow> real list \<Rightarrow> bool" where
  "all_between lo hi xs = list_all (\<lambda>x. lo \<le> x \<and> x \<le> hi) xs"

text \<open>
  The nine indicator columns, and tables whose indicators are far from the ends of their
  number ranges: floats of magnitude at most \<open>10^300\<close>, so that no difference of two of
  them overflows, and integers of magnitude at most \<open>2^61\<close>, so that no 64-bit
  difference of two of them wraps around, also after \<^verbatim>\<open>100 - series\<close>.
\<close>

definition indicator_columns :: "string list" where
  "indicator_columns =
     [''pct_no_vehicle'', ''avg_commute_time'', ''pct_broadband'',
      ''unemployment_rate'', ''employment_growth'', ''poverty_rate'',
      ''licensing_burden_index'', ''ban_the_box_score'', ''fair_chance_score'']"

definition moderate_column :: "column \<Rightarrow> bool" where
  "moderate_column c =
     (case c of
        NumCol xs \<Rightarrow> list_all (\<lambda>x. \<bar>x\<bar> \<le> 10 ^ 300) xs
      | IntCol ns \<Rightarrow> list_all (\<lambda>n. \<bar>n\<bar> \<le> 2 ^ 61) ns
      | StrCol ss \<Rightarrow> True)"

definition moderate :: "frame \<Rightarrow> bool" where
  "moderate df =
     list_all (\<lambda>name. case map_of df name of None \<Rightarrow> True | Some c \<Rightarrow> moderate_column c)
       indicator_columns"

text \<open>An integer column on which \<^verbatim>\<open>normalize_score\<close> does not wrap around.\<close>

definition int64_safe :: "column \<Rightarrow> bool" where
  "int64_safe c =
     (case c of IntCol ns \<Rightarrow> list_all (\<lambda>n. \<bar>n\<bar> < 2 ^ 62) ns | _ \<Rightarrow> True)"

text \<open>The six columns \<^verbatim>\<open>calculate_reai\<close> assigns.\<close>

definition derived_columns :: "string list" where
  "derived_columns =
     [''transportation_score'', ''labor_market_score'', ''licensing_score'',
      ''policy_score'', ''REAI'', ''REAI_rank'']"

text \<open>
  A table of two regions: the first is best on every transportation indicator and worst
  on every labour-market indicator, the licensing and ban-the-box columns are constant.
\<close>

definition example_table :: frame where
  "example_table =
     [(''county'', StrCol [''Wake'', ''Durham'']),
      (''pct_no_vehicle'', NumCol [0, 10]),
      (''avg_commute_time'', NumCol [10, 20]),
      (''pct_broadband'', NumCol [90, 80]),
      (''unemployment_rate'', NumCol [10, 5]),
      (''employment_growth'', NumCol [0, 1]),
      (''poverty_rate'', NumCol [20, 10]),
      (''licensing_burden_index'', IntCol [65, 65]),
      (''ban_the_box_score'', IntCol [75, 75]),
      (''fair_chance_score'', NumCol [50, 60])]"

text \<open>The engine \<^verbatim>\<open>REAICalculator()\<close> with the default weights.\<close>

definition default_engine :: REAICalculator where
  "default_engine =
     \<lparr>default_weights =
        [(''transportation'', 30 / 100), (''labor_market'', 35 / 100),
         (''licensing'', 20 / 100), (''policy'', 15 / 100)],
      weights =
        [(''transportation'', 30 / 100), (''labor_market'', 35 / 100),
         (''licensing'', 20 / 100), (''policy'', 15 / 100)]\<rparr>"

text \<open>The example table after \<^verbatim>\<open>calculate_reai\<close> with the default weights.\<close>

definition example_result :: frame where
  "example_result =
     example_table @
     [(''transportation_score'', NumCol [100, 0]),
      (''labor_market_score'', NumCol [0, 100]),
      (''licensing_score'', NumCol [50, 50]),
      (''policy_score'', NumCol [25, 75]),
      (''REAI'', NumCol [175 / 4, 225 / 4]),
      (''REAI_rank'', IntCol [2, 1])]"

text \<open>A store holding the example table at reference 0.\<close>

definition example_store :: store where
  "example_store = (\<lambda>_. [])(0 := example_table)"

text \<open>The same with a column \<^verbatim>\<open>REAI\<close> already present in the input.\<close>

definition stale_store :: store where
  "stale_store = (\<lambda>_. [])(0 := example_table @ [(''REAI'', NumCol [0, 0])])"

text \<open>
  An engine whose weights sum to 1 with a negative weight: what
  \<^verbatim>\<open>REAICalculator({'transportation': 2, 'labor_market': -1, 'licensing': 0, 'policy': 0})\<close>
  constructs.
\<close>

definition skewed_engine :: REAICalculator where
  "skewed_engine =
     \<lparr>default_weights =
        [(''transportation'', 30 / 100), (''labor_market'', 35 / 100),
         (''licensing'', 20 / 100), (''policy'', 15 / 100)],
      weights =
        [(''transportation'', 2), (''labor_market'', - 1),
         (''licensing'', 0), (''policy'', 0)]\<rparr>"










text \<open>
  The row a summary is expected to hold for a score column with values \<open>xs\<close> and the
  reference weight \<open>wt\<close>: the weight, then seven statistics.
\<close>

definition summary_row :: "real \<Rightarrow> real list \<Rightarrow> (string \<times> real option) list" where
  "summary_row wt xs =
     [(''weight'', Some wt),
      (''mean'', mean xs),
      (''std'', std xs),
      (''min'', if xs = [] then None else Some (Min (set xs))),
      (''25%'', quantile (25 / 100) xs),
      (''50%'', quantile (50 / 100) xs),
      (''75%'', quantile (75 / 100) xs),
      (''max'', if xs = [] then None else Some (Max (set xs)))]"

text \<open>The summary of the example table after the calculation with the default weights.\<close>

definition example_summary :: summary where
  "example_summary =
     [(''REAI'', summary_row 1 [175 / 4, 225 / 4]),
      (''transportation_score'', summary_row (30 / 100) [100, 0]),
      (''labor_market_score'', summary_row (35 / 100) [0, 100]),
      (''licensing_score'', summary_row (20 / 100) [50, 50]),
      (''policy_score'', summary_row (15 / 100) [25, 75])]"

text \<open>
  The engine \<^verbatim>\<open>REAICalculator({'labor_market': 0.35, 'transportation': 0.30,
  'licensing': 0.20, 'policy': 0.15})\<close>: the default weights, inserted in another order.
\<close>

definition reordered_engine :: REAICalculator where
  "reordered_engine =
     \<lparr>default_weights =
        [(''transportation'', 30 / 100), (''labor_market'', 35 / 100),
         (''licensing'', 20 / 100), (''policy'', 15 / 100)],
      weights =
        [(''labor_market'', 35 / 100), (''transportation'', 30 / 100),
         (''licensing'', 20 / 100), (''policy'', 15 / 100)]\<rparr>"

section \<open>Construction\<close>

lemma isclose_one: "isclose t 1 \<longleftrightarrow> \<bar>t - 1\<bar> \<le> 1001 / 100000000"
  by (simp add: isclose_def atol_def rtol_def)

text \<open>
  C1, as the code has it. For every non-empty weight mapping, construction succeeds exactly
  when the sum of the weights is within \<open>atol + rtol * 1 = 1.001e-5\<close> of 1, the default
  tolerance of \<^verbatim>\<open>numpy.isclose\<close>, and the engine then holds the given weights; otherwise
  construction fails with the \<^verbatim>\<open>ValueError\<close> that reports the sum, and no engine exists
  that could score anything.
\<close>

theorem init_accepts_within_isclose:
  "w \<noteq> [] \<Longrightarrow>
   init (Some w) =
     (if \<bar>sum_values w - 1\<bar> \<le> 1001 / 100000000
      then Inr \<lparr>default_weights =
                 [(''transportation'', 30 / 100), (''labor_market'', 35 / 100),
                  (''licensing'', 20 / 100), (''policy'', 15 / 100)],
               weights = w\<rparr>
      else Inl (WeightsValueError (sum_values w)))"
  by (simp add: init_def validate_weights_def Let_def isclose_one)

text \<open>The weight set of the specification that sums to 0.95 is rejected.\<close>

theorem init_accepts_within_isclose_witness:
  "[(''transportation'', 2 / 10), (''labor_market'', 5 / 10),
    (''licensing'', 15 / 100), (''policy'', 1 / 10 :: real)] \<noteq> [] \<and>
   init (Some [(''transportation'', 2 / 10), (''labor_market'', 5 / 10),
               (''licensing'', 15 / 100), (''policy'', 1 / 10)]) =
     Inl (WeightsValueError (95 / 100))"
  using init_accepts_within_isclose
    [of "[(''transportation'', 2 / 10), (''labor_market'', 5 / 10),
          (''licensing'', 15 / 100), (''policy'', 1 / 10)]"]
  by (simp add: sum_values_def)

text \<open>
  C1 as stated fails: a weight set over the four components whose sum, 1.000001, differs
  from 1 by a thousand times the tolerance 1e-9 is accepted.
\<close>

theorem init_tolerance_counterexample:
  "\<bar>sum_values [(''transportation'', 25 / 100), (''labor_market'', 25 / 100),
                (''licensing'', 25 / 100), (''policy'', 250001 / 1000000)] - 1\<bar>
     > 1 / 1000000000 \<and>
   init (Some [(''transportation'', 25 / 100), (''labor_market'', 25 / 100),
               (''licensing'', 25 / 100), (''policy'', 250001 / 1000000)]) =
     Inr \<lparr>default_weights =
            [(''transportation'', 30 / 100), (''labor_market'', 35 / 100),
             (''licensing'', 20 / 100), (''policy'', 15 / 100)],
          weights =
            [(''transportation'', 25 / 100), (''labor_market'', 25 / 100),
             (''licensing'', 25 / 100), (''policy'', 250001 / 1000000)]\<rparr>"
  by (simp add: init_def validate_weights_def isclose_def atol_def rtol_def sum_values_def)

text \<open>
  C9. The values of the empty mapping sum to 0, which validation would reject; but the
  constructor replaces the empty mapping by the default weights and succeeds.
\<close>

theorem init_empty_takes_defaults:
  "sum_values [] = 0 \<and> \<not> isclose 0 1 \<and>
   init (Some []) =
     Inr \<lparr>default_weights =
            [(''transportation'', 30 / 100), (''labor_market'', 35 / 100),
             (''licensing'', 20 / 100), (''policy'', 15 / 100)],
          weights =
            [(''transportation'', 30 / 100), (''labor_market'', 35 / 100),
             (''licensing'', 20 / 100), (''policy'', 15 / 100)]\<rparr>"
  by (simp add: init_def validate_weights_def isclose_def atol_def rtol_def sum_values_def
      Let_def)

section \<open>The normaliser\<close>



text \<open>
  On an integer column the differences wrap around in 64 bits: for the values
  \<open>-5 * 10^18\<close>, \<open>0\<close>, \<open>5 * 10^18\<close> the difference \<open>max_val - min_val\<close> is
  \<open>10^19 - 2^64\<close>, negative, and so is the middle score.
\<close>

lemma normalize_score_int64_wraps:
  "normalize_score (IntCol [- 5000000000000000000, 0, 5000000000000000000]) False =
     Inr [0, 5000000000000000000 / (- 8446744073709551616) * 100, 100]"
  by (simp add: normalize_int_def wrap64_def)





section \<open>Ranking\<close>

lemma takeWhile_desc_count:
  fixes ys :: "real list"
  shows "sorted_wrt (\<ge>) ys \<Longrightarrow> v \<in> set ys \<Longrightarrow>
    length (takeWhile (\<lambda>u. u \<noteq> v) ys) = length (filter (\<lambda>u. v < u) ys)"
proof (induction ys)
  case Nil
  then show ?case by simp
next
  case (Cons y ys)
  show ?case
  proof (cases "y = v")
    case True
    with Cons.prems have "\<forall>u \<in> set ys. \<not> v < u" by auto
    then have "filter (\<lambda>u. v < u) ys = []" by (simp add: filter_empty_conv)
    with True show ?thesis by simp
  next
    case False
    with Cons.prems have "v \<in> set ys" "v < y" "sorted_wrt (\<ge>) ys" by auto
    with Cons.IH False show ?thesis by simp
  qed
qed

lemma sorted_desc_rev_sort: "sorted_wrt (\<ge>) (rev (sort (xs :: real list)))"
proof -
  have "sorted_wrt (\<le>) (sort xs)" by simp
  then show ?thesis by (simp add: sorted_wrt_rev)
qed

lemma count_rev_sort:
  "length (filter P (rev (sort (xs :: real list)))) = length (filter P xs)"
proof -
  have "length (filter P (rev (sort xs))) = length (filter P (sort xs))"
    by (simp add: rev_filter [symmetric])
  also have "\<dots> = length (sort (filter P xs))" by (simp add: filter_sort)
  finally show ?thesis by simp
qed

lemma rank_min_desc_count:
  "rank_min_desc xs = map (\<lambda>v. 1 + int (length (filter (\<lambda>u. v < u) xs))) xs"
proof -
  have "length (takeWhile (\<lambda>u. u \<noteq> v) (rev (sort xs))) = length (filter (\<lambda>u. v < u) xs)"
    if "v \<in> set xs" for v
  proof -
    from that have "v \<in> set (rev (sort xs))" by simp
    from takeWhile_desc_count [OF sorted_desc_rev_sort this]
    show ?thesis by (simp add: count_rev_sort)
  qed
  then show ?thesis by (simp add: rank_min_desc_def)
qed

lemma length_rank_min_desc: "length (rank_min_desc xs) = length xs"
  by (simp add: rank_min_desc_def)

lemma rank_min_desc_nth:
  "i < length xs \<Longrightarrow>
   rank_min_desc xs ! i = 1 + int (length (filter (\<lambda>u. xs ! i < u) xs))"
  by (simp add: rank_min_desc_count)

lemma filter_length_mono:
  "(\<And>x. x \<in> set xs \<Longrightarrow> P x \<Longrightarrow> Q x) \<Longrightarrow> length (filter P xs) \<le> length (filter Q xs)"
  by (induction xs) auto

lemma rank_min_desc_order:
  assumes "i < length xs" "j < length xs" "xs ! j < xs ! i"
  shows "rank_min_desc xs ! i < rank_min_desc xs ! j"
proof -
  let ?P = "\<lambda>u. xs ! i < u" and ?Q = "\<lambda>u. xs ! j < u"
  have "length (filter ?P xs) < length (filter ?Q xs)"
  proof -
    have a: "xs ! i \<in> set xs" using assms(1) by simp
    have "length (filter ?P xs) = length (filter ?P (filter ?Q xs))"
    proof -
      have "filter ?P (filter ?Q xs) = filter ?P xs"
        using assms(3) by (auto intro: filter_cong)
      then show ?thesis by simp
    qed
    also have "\<dots> < length (filter ?Q xs)"
    proof (rule length_filter_less [of "xs ! i"])
      show "xs ! i \<in> set (filter ?Q xs)" using a assms(3) by simp
      show "\<not> xs ! i < xs ! i" by simp
    qed
    finally show ?thesis .
  qed
  then show ?thesis using assms by (simp add: rank_min_desc_nth)
qed

section \<open>Bounds of the component scores\<close>

lemma err_bind_Inr:
  "err_bind m f = Inr y \<longleftrightarrow> (\<exists>x. m = Inr x \<and> f x = Inr y)"
  by (cases m) (simp_all add: err_bind_def)

lemma all_between_add_series:
  "all_between a b xs \<Longrightarrow> all_between c d ys \<Longrightarrow> all_between (a + c) (b + d) (add_series xs ys)"
proof (induction xs arbitrary: ys)
  case Nil
  then show ?case by (simp add: all_between_def add_series_def)
next
  case (Cons x xs)
  then show ?case by (cases ys) (auto simp: all_between_def add_series_def)
qed

lemma all_between_scale:
  "0 \<le> k \<Longrightarrow> all_between a b xs \<Longrightarrow> all_between (a * k) (b * k) (map (\<lambda>x. x * k) xs)"
  by (induction xs) (auto simp: all_between_def mult_right_mono)

lemma all_between_divide:
  "0 < k \<Longrightarrow> all_between a b xs \<Longrightarrow> all_between (a / k) (b / k) (map (\<lambda>x. x / k) xs)"
  by (induction xs) (auto simp: all_between_def divide_right_mono)

lemma scale_bounds:
  fixes a d :: real
  shows "0 < d \<Longrightarrow> 0 \<le> a \<Longrightarrow> a \<le> d \<Longrightarrow> 0 \<le> a / d * 100 \<and> a / d * 100 \<le> 100"
  by (simp add: field_simps)

lemma all_between_normalize_num: "all_between 0 100 (normalize_num xs r)"
proof (cases "xs = [] \<or> Max (set xs) = Min (set xs)")
  case True
  then show ?thesis
    by (auto simp: normalize_num_def all_between_def list_all_iff)
next
  case False
  then have ne: "xs \<noteq> []" and neq: "Max (set xs) \<noteq> Min (set xs)" by auto
  have le: "Min (set xs) \<le> Max (set xs)" using ne by simp
  with neq have pos: "0 < Max (set xs) - Min (set xs)" by simp
  have sc: "0 \<le> (v - Min (set xs)) / (Max (set xs) - Min (set xs)) * 100 \<and>
        (v - Min (set xs)) / (Max (set xs) - Min (set xs)) * 100 \<le> 100" if "v \<in> set xs" for v
  proof -
    from that have "Min (set xs) \<le> v" "v \<le> Max (set xs)" by simp_all
    then have "0 \<le> v - Min (set xs)" "v - Min (set xs) \<le> Max (set xs) - Min (set xs)"
      by simp_all
    with pos show ?thesis by (rule_tac scale_bounds)
  qed
  show ?thesis
    using ne neq sc by (cases r) (auto simp: normalize_num_def all_between_def list_all_iff Let_def)
qed

lemma wrap64_id: "- (2 ^ 63) \<le> n \<Longrightarrow> n < 2 ^ 63 \<Longrightarrow> wrap64 n = n"
  by (simp add: wrap64_def)

lemma Min_real_of_int:
  "ns \<noteq> [] \<Longrightarrow> Min (real_of_int ` set ns) = real_of_int (Min (set ns))"
  by (simp add: mono_Min_commute [symmetric] monoI)

lemma Max_real_of_int:
  "ns \<noteq> [] \<Longrightarrow> Max (real_of_int ` set ns) = real_of_int (Max (set ns))"
  by (simp add: mono_Max_commute [symmetric] monoI)

lemma normalize_int_no_wrap:
  assumes "list_all (\<lambda>n. \<bar>n\<bar> < 2 ^ 62) ns"
  shows "normalize_int ns r = normalize_num (map real_of_int ns) r"
proof (cases "ns = []")
  case True
  then show ?thesis by (simp add: normalize_int_def normalize_num_def)
next
  case False
  let ?mn = "Min (set ns)" and ?mx = "Max (set ns)"
  have b: "\<bar>n\<bar> < 2 ^ 62" if "n \<in> set ns" for n
    using assms that by (simp add: list_all_iff)
  have mn: "?mn \<in> set ns" and mx: "?mx \<in> set ns" using False by simp_all
  have w: "wrap64 (v - ?mn) = v - ?mn" if "v \<in> set ns" for v
    using b [OF that] b [OF mn] by (intro wrap64_id) simp_all
  have m: "map (\<lambda>v. real_of_int (wrap64 (v - ?mn)) / real_of_int (wrap64 (?mx - ?mn)) * 100) ns =
      map (\<lambda>v. (real_of_int v - real_of_int ?mn) /
                (real_of_int ?mx - real_of_int ?mn) * 100) ns"
    using w w [OF mx] by simp
  have i: "normalize_int ns r =
      (if ?mx = ?mn then replicate (length ns) 50
       else if r
         then map (\<lambda>s. 100 - s)
           (map (\<lambda>v. (real_of_int v - real_of_int ?mn) /
                     (real_of_int ?mx - real_of_int ?mn) * 100) ns)
         else map (\<lambda>v. (real_of_int v - real_of_int ?mn) /
                     (real_of_int ?mx - real_of_int ?mn) * 100) ns)"
    using False by (simp only: normalize_int_def Let_def m if_False)
  have n: "normalize_num (map real_of_int ns) r =
      (if ?mx = ?mn then replicate (length ns) 50
       else if r
         then map (\<lambda>s. 100 - s)
           (map (\<lambda>v. (real_of_int v - real_of_int ?mn) /
                     (real_of_int ?mx - real_of_int ?mn) * 100) ns)
         else map (\<lambda>v. (real_of_int v - real_of_int ?mn) /
                     (real_of_int ?mx - real_of_int ?mn) * 100) ns)"
    using False
    by (simp add: normalize_num_def Let_def Min_real_of_int Max_real_of_int o_def)
  from i n show ?thesis by simp
qed

lemma all_between_normalize_score:
  assumes "normalize_score c r = Inr ys" and "int64_safe c"
  shows "all_between 0 100 ys"
proof (cases c)
  case (NumCol xs)
  with assms(1) show ?thesis using all_between_normalize_num by auto
next
  case (IntCol ns)
  with assms show ?thesis
    using all_between_normalize_num by (auto simp: int64_safe_def normalize_int_no_wrap)
next
  case (StrCol ss)
  with assms(1) show ?thesis by (auto simp: all_between_def list_all_iff split: if_splits)
qed

lemma moderate_int64_safe: "moderate_column c \<Longrightarrow> int64_safe c"
  by (cases c) (auto simp: moderate_column_def int64_safe_def list_all_iff)

lemma hundred_minus_int64_safe:
  assumes "hundred_minus c = Inr a" and "moderate_column c"
  shows "int64_safe a"
proof (cases c)
  case (NumCol xs)
  with assms(1) show ?thesis by (auto simp: int64_safe_def)
next
  case (IntCol ns)
  have "\<bar>wrap64 (100 - n)\<bar> < 2 ^ 62" if "n \<in> set ns" for n
  proof -
    from assms(2) that have "\<bar>n\<bar> \<le> 2 ^ 61"
      by (simp add: IntCol moderate_column_def list_all_iff)
    then have "wrap64 (100 - n) = 100 - n" "\<bar>100 - n\<bar> < 2 ^ 62"
      by (simp_all add: wrap64_id)
    then show ?thesis by simp
  qed
  with assms(1) show ?thesis by (auto simp: IntCol int64_safe_def list_all_iff)
next
  case (StrCol ss)
  with assms(1) show ?thesis by (auto simp: int64_safe_def split: if_splits)
qed

lemma moderate_getitem:
  "moderate df \<Longrightarrow> getitem df name = Inr c \<Longrightarrow> name \<in> set indicator_columns \<Longrightarrow>
   moderate_column c"
  by (auto simp: moderate_def getitem_def list_all_iff split: option.splits)

lemma moderate_update:
  "name \<notin> set indicator_columns \<Longrightarrow> moderate (AList.update name c df) = moderate df"
  by (auto simp: moderate_def list_all_iff update_conv')

lemma all_between_indicator:
  assumes "moderate df" and "getitem df name = Inr c" and "name \<in> set indicator_columns"
    and "normalize_score c r = Inr ys"
  shows "all_between 0 100 ys"
  using all_between_normalize_score [OF assms(4)]
    moderate_int64_safe [OF moderate_getitem [OF assms(1,2,3)]] by simp

lemma all_between_transportation:
  assumes "calculate_transportation_score df = Inr ts" and "moderate df"
  shows "all_between 0 100 ts"
proof -
  from assms(1) obtain c1 a1 c2 c3 a b c where
    g: "getitem df ''pct_no_vehicle'' = Inr c1" "hundred_minus c1 = Inr a1"
      "getitem df ''avg_commute_time'' = Inr c2" "getitem df ''pct_broadband'' = Inr c3" and
    n: "normalize_score a1 False = Inr a" "normalize_score c2 True = Inr b"
      "normalize_score c3 False = Inr c" and
    ts: "ts = map (\<lambda>s. s / 3) (add_series (add_series a b) c)"
    unfolding calculate_transportation_score_def err_bind_Inr by blast
  have "moderate_column c1"
    by (rule moderate_getitem [OF assms(2) g(1)]) (simp add: indicator_columns_def)
  from hundred_minus_int64_safe [OF g(2) this] n(1) have "all_between 0 100 a"
    by (rule all_between_normalize_score [rotated])
  moreover have "all_between 0 100 b"
    by (rule all_between_indicator [OF assms(2) g(3) _ n(2)]) (simp add: indicator_columns_def)
  moreover have "all_between 0 100 c"
    by (rule all_between_indicator [OF assms(2) g(4) _ n(3)]) (simp add: indicator_columns_def)
  ultimately have "all_between (0 + 0 + 0) (100 + 100 + 100) (add_series (add_series a b) c)"
    by (intro all_between_add_series)
  from all_between_divide [OF _ this, of 3] show ?thesis by (simp add: ts)
qed

lemma all_between_labor_market:
  assumes "calculate_labor_market_score df = Inr ls" and "moderate df"
  shows "all_between 0 100 ls"
proof -
  from assms(1) obtain c1 c2 c3 a b c where
    g: "getitem df ''unemployment_rate'' = Inr c1" "getitem df ''employment_growth'' = Inr c2"
      "getitem df ''poverty_rate'' = Inr c3" and
    n: "normalize_score c1 True = Inr a" "normalize_score c2 False = Inr b"
      "normalize_score c3 True = Inr c" and
    ls: "ls = add_series (add_series (map (\<lambda>s. s * (40 / 100)) a)
               (map (\<lambda>s. s * (30 / 100)) b)) (map (\<lambda>s. s * (30 / 100)) c)"
    unfolding calculate_labor_market_score_def err_bind_Inr by blast
  have "all_between 0 100 a"
    by (rule all_between_indicator [OF assms(2) g(1) _ n(1)]) (simp add: indicator_columns_def)
  moreover have "all_between 0 100 b"
    by (rule all_between_indicator [OF assms(2) g(2) _ n(2)]) (simp add: indicator_columns_def)
  moreover have "all_between 0 100 c"
    by (rule all_between_indicator [OF assms(2) g(3) _ n(3)]) (simp add: indicator_columns_def)
  ultimately have "all_between (0 * (40 / 100) + 0 * (30 / 100) + 0 * (30 / 100))
          (100 * (40 / 100) + 100 * (30 / 100) + 100 * (30 / 100)) ls"
    unfolding ls by (intro all_between_add_series all_between_scale) simp_all
  then show ?thesis by simp
qed

lemma all_between_licensing:
  assumes "calculate_licensing_score df = Inr lic" and "moderate df"
  shows "all_between 0 100 lic"
proof -
  from assms(1) obtain c where
    g: "getitem df ''licensing_burden_index'' = Inr c" and
    n: "normalize_score c True = Inr lic"
    unfolding calculate_licensing_score_def err_bind_Inr by blast
  show ?thesis
    by (rule all_between_indicator [OF assms(2) g _ n]) (simp add: indicator_columns_def)
qed

lemma all_between_policy:
  assumes "calculate_policy_score df = Inr ps" and "moderate df"
  shows "all_between 0 100 ps"
proof -
  from assms(1) obtain c1 c2 a b where
    g: "getitem df ''ban_the_box_score'' = Inr c1" "getitem df ''fair_chance_score'' = Inr c2" and
    n: "normalize_score c1 False = Inr a" "normalize_score c2 False = Inr b" and
    ps: "ps = map (\<lambda>s. s / 2) (add_series a b)"
    unfolding calculate_policy_score_def err_bind_Inr by blast
  have "all_between 0 100 a"
    by (rule all_between_indicator [OF assms(2) g(1) _ n(1)]) (simp add: indicator_columns_def)
  moreover have "all_between 0 100 b"
    by (rule all_between_indicator [OF assms(2) g(2) _ n(2)]) (simp add: indicator_columns_def)
  ultimately have "all_between (0 + 0) (100 + 100) (add_series a b)"
    by (intro all_between_add_series)
  from all_between_divide [OF _ this, of 2] show ?thesis by (simp add: ps)
qed

section \<open>The table after a successful calculation\<close>

lemma calculate_reai_Inr:
  assumes "calculate_reai self df h = (Inr r, h')"
  shows "\<exists>ts ls lic ps reai.
     calculate_transportation_score (h df) = Inr ts \<and>
     calculate_labor_market_score
       (AList.update ''transportation_score'' (NumCol ts) (h df)) = Inr ls \<and>
     calculate_licensing_score
       (AList.update ''labor_market_score'' (NumCol ls)
         (AList.update ''transportation_score'' (NumCol ts) (h df))) = Inr lic \<and>
     calculate_policy_score
       (AList.update ''licensing_score'' (NumCol lic)
         (AList.update ''labor_market_score'' (NumCol ls)
           (AList.update ''transportation_score'' (NumCol ts) (h df)))) = Inr ps \<and>
     weighted_sum
       (AList.update ''policy_score'' (NumCol ps)
         (AList.update ''licensing_score'' (NumCol lic)
           (AList.update ''labor_market_score'' (NumCol ls)
             (AList.update ''transportation_score'' (NumCol ts) (h df)))))
       (weights self) = Inr reai \<and>
     r = df \<and>
     h' = h(df :=
       AList.update ''REAI_rank'' (IntCol (rank_min_desc reai))
         (AList.update ''REAI'' (NumCol reai)
           (AList.update ''policy_score'' (NumCol ps)
             (AList.update ''licensing_score'' (NumCol lic)
               (AList.update ''labor_market_score'' (NumCol ls)
                 (AList.update ''transportation_score'' (NumCol ts) (h df)))))))"
  using assms unfolding calculate_reai_def
  by (auto simp: setitem_def Let_def getitem_def err_bind_def update_conv'
      split: sum.splits)

lemma weighted_term_Inr:
  "map_of df col = Some (NumCol xs) \<Longrightarrow>
   weighted_term df w col key = Inr ys \<longleftrightarrow> (\<exists>k. map_of w key = Some k \<and> ys = map (\<lambda>x. x * k) xs)"
  by (auto simp: weighted_term_def getitem_def weight_of_def err_bind_def split: option.splits)

lemma weighted_sum_Inr:
  assumes "map_of df ''transportation_score'' = Some (NumCol ts)"
    and "map_of df ''labor_market_score'' = Some (NumCol ls)"
    and "map_of df ''licensing_score'' = Some (NumCol lic)"
    and "map_of df ''policy_score'' = Some (NumCol ps)"
  shows "weighted_sum df w = Inr reai \<longleftrightarrow>
    (\<exists>wt wl wc wp.
       map_of w ''transportation'' = Some wt \<and> map_of w ''labor_market'' = Some wl \<and>
       map_of w ''licensing'' = Some wc \<and> map_of w ''policy'' = Some wp \<and>
       reai = add_series (add_series (add_series (map (\<lambda>x. x * wt) ts) (map (\<lambda>x. x * wl) ls))
                (map (\<lambda>x. x * wc) lic)) (map (\<lambda>x. x * wp) ps))"
  unfolding weighted_sum_def err_bind_Inr
  by (simp add: weighted_term_Inr [OF assms(1)] weighted_term_Inr [OF assms(2)]
      weighted_term_Inr [OF assms(3)] weighted_term_Inr [OF assms(4)]) blast

lemma example_transportation:
  "calculate_transportation_score (example_table @ extra) = Inr [100, 0]"
  by (simp add: calculate_transportation_score_def example_table_def getitem_def err_bind_def
      normalize_num_def normalize_int_def add_series_def)

lemma example_labor_market:
  "calculate_labor_market_score (example_table @ extra) = Inr [0, 100]"
  by (simp add: calculate_labor_market_score_def example_table_def getitem_def err_bind_def
      normalize_num_def normalize_int_def add_series_def)

lemma example_licensing:
  "calculate_licensing_score (example_table @ extra) = Inr [50, 50]"
  by (simp add: calculate_licensing_score_def example_table_def getitem_def err_bind_def
      normalize_num_def normalize_int_def numeral_2_eq_2)

lemma example_policy:
  "calculate_policy_score (example_table @ extra) = Inr [25, 75]"
  by (simp add: calculate_policy_score_def example_table_def getitem_def err_bind_def
      normalize_num_def normalize_int_def add_series_def numeral_2_eq_2)

lemma example_calculate:
  "calculate_reai default_engine 0 example_store =
     (Inr 0, example_store(0 := example_result))"
  by (simp add: calculate_reai_def setitem_def Let_def default_engine_def example_result_def
      example_store_def
      example_table_def calculate_transportation_score_def calculate_labor_market_score_def
      calculate_licensing_score_def calculate_policy_score_def weighted_sum_def
      weighted_term_def weight_of_def getitem_def err_bind_def normalize_num_def normalize_int_def
      add_series_def rank_min_desc_def numeral_2_eq_2)

text \<open>
  C2. After a successful \<^verbatim>\<open>calculate_reai\<close> the table holds a float column \<^verbatim>\<open>REAI\<close>
  and an integer column \<^verbatim>\<open>REAI_rank\<close> of the same length such that: a region with a
  larger composite never has a larger rank number; regions with equal composites have equal
  ranks; and the rank of a region is one more than the number of regions with a strictly
  larger composite, which is the minimum-rank (competition) convention: a group of ties
  shares the best rank of its tier and the next group resumes after the whole group.
  The composites [90, 90, 80] get the ranks [1, 1, 3].
\<close>

theorem calculate_reai_rank_consistent:
  assumes "calculate_reai self df h = (Inr r, h')"
  shows "\<exists>reai ranks.
     map_of (h' r) ''REAI'' = Some (NumCol reai) \<and>
     map_of (h' r) ''REAI_rank'' = Some (IntCol ranks) \<and>
     length ranks = length reai \<and>
     (\<forall>i < length reai. \<forall>j < length reai.
        (reai ! j < reai ! i \<longrightarrow> ranks ! i \<le> ranks ! j) \<and>
        (reai ! i = reai ! j \<longrightarrow> ranks ! i = ranks ! j)) \<and>
     (\<forall>i < length reai.
        ranks ! i = 1 + int (length (filter (\<lambda>u. reai ! i < u) reai))) \<and>
     rank_min_desc [90, 90, 80] = [1, 1, 3]"
proof -
  from calculate_reai_Inr [OF assms] obtain ts ls lic ps reai where
    r: "r = df" and
    h': "h' = h(df :=
       AList.update ''REAI_rank'' (IntCol (rank_min_desc reai))
         (AList.update ''REAI'' (NumCol reai)
           (AList.update ''policy_score'' (NumCol ps)
             (AList.update ''licensing_score'' (NumCol lic)
               (AList.update ''labor_market_score'' (NumCol ls)
                 (AList.update ''transportation_score'' (NumCol ts) (h df)))))))"
    by blast
  have a: "map_of (h' r) ''REAI'' = Some (NumCol reai)"
    and b: "map_of (h' r) ''REAI_rank'' = Some (IntCol (rank_min_desc reai))"
    by (simp_all add: r h' update_conv')
  have c: "rank_min_desc reai ! i \<le> rank_min_desc reai ! j"
    if "i < length reai" "j < length reai" "reai ! j < reai ! i" for i j
    using rank_min_desc_order [OF that] by simp
  have d: "rank_min_desc reai ! i = rank_min_desc reai ! j"
    if "i < length reai" "j < length reai" "reai ! i = reai ! j" for i j
    using that by (simp add: rank_min_desc_nth)
  have e: "rank_min_desc [90, 90, 80] = [1, 1, 3]"
    by (simp add: rank_min_desc_def)
  show ?thesis
    using a b c d e by (intro exI [of _ reai] exI [of _ "rank_min_desc reai"])
      (simp add: length_rank_min_desc rank_min_desc_nth)
qed

theorem calculate_reai_rank_consistent_witness:
  "map_of (snd (calculate_reai default_engine 0 example_store) 0) ''REAI'' =
     Some (NumCol [175 / 4, 225 / 4]) \<and>
   map_of (snd (calculate_reai default_engine 0 example_store) 0) ''REAI_rank'' =
     Some (IntCol [2, 1]) \<and>
   (\<exists>reai ranks.
     map_of (snd (calculate_reai default_engine 0 example_store) 0) ''REAI'' =
       Some (NumCol reai) \<and>
     map_of (snd (calculate_reai default_engine 0 example_store) 0) ''REAI_rank'' =
       Some (IntCol ranks) \<and>
     length ranks = length reai \<and>
     (\<forall>i < length reai. \<forall>j < length reai.
        (reai ! j < reai ! i \<longrightarrow> ranks ! i \<le> ranks ! j) \<and>
        (reai ! i = reai ! j \<longrightarrow> ranks ! i = ranks ! j)) \<and>
     (\<forall>i < length reai.
        ranks ! i = 1 + int (length (filter (\<lambda>u. reai ! i < u) reai))) \<and>
     rank_min_desc [90, 90, 80] = [1, 1, 3])"
proof -
  have e: "calculate_reai default_engine 0 example_store =
      (Inr 0, snd (calculate_reai default_engine 0 example_store))"
    by (simp add: example_calculate)
  have "map_of (snd (calculate_reai default_engine 0 example_store) 0) ''REAI'' =
     Some (NumCol [175 / 4, 225 / 4])"
    "map_of (snd (calculate_reai default_engine 0 example_store) 0) ''REAI_rank'' =
     Some (IntCol [2, 1])"
    by (simp_all add: example_calculate example_result_def example_table_def)
  with calculate_reai_rank_consistent [OF e] show ?thesis by blast
qed

section \<open>Score ranges and the effect on the store\<close>

lemma calculate_reai_columns:
  assumes "calculate_reai self df h = (Inr r, h')" and "moderate (h df)"
  shows "\<exists>ts ls lic ps wt wl wc wp.
     r = df \<and>
     all_between 0 100 ts \<and> all_between 0 100 ls \<and>
     all_between 0 100 lic \<and> all_between 0 100 ps \<and>
     map_of (weights self) ''transportation'' = Some wt \<and>
     map_of (weights self) ''labor_market'' = Some wl \<and>
     map_of (weights self) ''licensing'' = Some wc \<and>
     map_of (weights self) ''policy'' = Some wp \<and>
     map_of (h' df) ''transportation_score'' = Some (NumCol ts) \<and>
     map_of (h' df) ''labor_market_score'' = Some (NumCol ls) \<and>
     map_of (h' df) ''licensing_score'' = Some (NumCol lic) \<and>
     map_of (h' df) ''policy_score'' = Some (NumCol ps) \<and>
     map_of (h' df) ''REAI'' = Some (NumCol
       (add_series (add_series (add_series (map (\<lambda>x. x * wt) ts) (map (\<lambda>x. x * wl) ls))
          (map (\<lambda>x. x * wc) lic)) (map (\<lambda>x. x * wp) ps)))"
proof -
  from calculate_reai_Inr [OF assms(1)] obtain ts ls lic ps reai where
    t: "calculate_transportation_score (h df) = Inr ts" and
    l: "calculate_labor_market_score
       (AList.update ''transportation_score'' (NumCol ts) (h df)) = Inr ls" and
    c: "calculate_licensing_score
       (AList.update ''labor_market_score'' (NumCol ls)
         (AList.update ''transportation_score'' (NumCol ts) (h df))) = Inr lic" and
    p: "calculate_policy_score
       (AList.update ''licensing_score'' (NumCol lic)
         (AList.update ''labor_market_score'' (NumCol ls)
           (AList.update ''transportation_score'' (NumCol ts) (h df)))) = Inr ps" and
    w: "weighted_sum
       (AList.update ''policy_score'' (NumCol ps)
         (AList.update ''licensing_score'' (NumCol lic)
           (AList.update ''labor_market_score'' (NumCol ls)
             (AList.update ''transportation_score'' (NumCol ts) (h df)))))
       (weights self) = Inr reai" and
    r: "r = df" and
    h': "h' = h(df :=
       AList.update ''REAI_rank'' (IntCol (rank_min_desc reai))
         (AList.update ''REAI'' (NumCol reai)
           (AList.update ''policy_score'' (NumCol ps)
             (AList.update ''licensing_score'' (NumCol lic)
               (AList.update ''labor_market_score'' (NumCol ls)
                 (AList.update ''transportation_score'' (NumCol ts) (h df)))))))"
    by blast
  from w obtain wt wl wc wp where
    ws: "map_of (weights self) ''transportation'' = Some wt"
      "map_of (weights self) ''labor_market'' = Some wl"
      "map_of (weights self) ''licensing'' = Some wc"
      "map_of (weights self) ''policy'' = Some wp" and
    reai: "reai = add_series (add_series (add_series (map (\<lambda>x. x * wt) ts)
       (map (\<lambda>x. x * wl) ls)) (map (\<lambda>x. x * wc) lic)) (map (\<lambda>x. x * wp) ps)"
    by (subst (asm) weighted_sum_Inr [where ts = ts and ls = ls and lic = lic and ps = ps])
      (auto simp: update_conv')
  have cols: "map_of (h' df) ''transportation_score'' = Some (NumCol ts)"
    "map_of (h' df) ''labor_market_score'' = Some (NumCol ls)"
    "map_of (h' df) ''licensing_score'' = Some (NumCol lic)"
    "map_of (h' df) ''policy_score'' = Some (NumCol ps)"
    "map_of (h' df) ''REAI'' = Some (NumCol reai)"
    by (simp_all add: h' update_conv')
  have nd: "''transportation_score'' \<notin> set indicator_columns"
    "''labor_market_score'' \<notin> set indicator_columns"
    "''licensing_score'' \<notin> set indicator_columns"
    by (simp_all add: indicator_columns_def)
  note m = assms(2)
  have "all_between 0 100 ts" by (rule all_between_transportation [OF t m])
  moreover have "all_between 0 100 ls"
    by (rule all_between_labor_market [OF l]) (simp add: moderate_update nd m)
  moreover have "all_between 0 100 lic"
    by (rule all_between_licensing [OF c]) (simp add: moderate_update nd m)
  moreover have "all_between 0 100 ps"
    by (rule all_between_policy [OF p]) (simp add: moderate_update nd m)
  ultimately show ?thesis
    using r ws cols unfolding reai by blast
qed

lemma all_between_weighted:
  assumes "all_between 0 100 ts" "all_between 0 100 ls" "all_between 0 100 lic"
    "all_between 0 100 ps"
    and "0 \<le> wt" "0 \<le> wl" "0 \<le> wc" "0 \<le> wp"
  shows "all_between 0 (100 * wt + 100 * wl + 100 * wc + 100 * wp)
    (add_series (add_series (add_series (map (\<lambda>x. x * wt) ts) (map (\<lambda>x. x * wl) ls))
       (map (\<lambda>x. x * wc) lic)) (map (\<lambda>x. x * wp) ps))"
proof -
  have "all_between (0 * wt + 0 * wl + 0 * wc + 0 * wp)
      (100 * wt + 100 * wl + 100 * wc + 100 * wp)
      (add_series (add_series (add_series (map (\<lambda>x. x * wt) ts) (map (\<lambda>x. x * wl) ls))
         (map (\<lambda>x. x * wc) lic)) (map (\<lambda>x. x * wp) ps))"
    using assms by (intro all_between_add_series all_between_scale)
  then show ?thesis by simp
qed

text \<open>
  C3, as the code has it. Take a table whose indicator columns are moderate (floats of
  magnitude at most \<open>10^300\<close>, 64-bit integers of magnitude at most \<open>2^61\<close>) and on which
  \<^verbatim>\<open>calculate_reai\<close> succeeds. Then each of the four component score columns lies in
  [0, 100] for every region. When the four weights the engine uses are non-negative, the
  composite \<^verbatim>\<open>REAI\<close> of every region lies between 0 and
  \<open>100 * w_transportation + 100 * w_labor_market + 100 * w_licensing + 100 * w_policy\<close>,
  the composite of a region that scores 100 on every component.
\<close>

theorem calculate_reai_scores_bounded:
  assumes "calculate_reai self df h = (Inr r, h')" and "moderate (h df)"
  shows "\<exists>ts ls lic ps reai.
     map_of (h' r) ''transportation_score'' = Some (NumCol ts) \<and> all_between 0 100 ts \<and>
     map_of (h' r) ''labor_market_score'' = Some (NumCol ls) \<and> all_between 0 100 ls \<and>
     map_of (h' r) ''licensing_score'' = Some (NumCol lic) \<and> all_between 0 100 lic \<and>
     map_of (h' r) ''policy_score'' = Some (NumCol ps) \<and> all_between 0 100 ps \<and>
     map_of (h' r) ''REAI'' = Some (NumCol reai) \<and>
     (\<forall>wt wl wc wp.
        map_of (weights self) ''transportation'' = Some wt \<and>
        map_of (weights self) ''labor_market'' = Some wl \<and>
        map_of (weights self) ''licensing'' = Some wc \<and>
        map_of (weights self) ''policy'' = Some wp \<and>
        0 \<le> wt \<and> 0 \<le> wl \<and> 0 \<le> wc \<and> 0 \<le> wp \<longrightarrow>
        all_between 0 (100 * wt + 100 * wl + 100 * wc + 100 * wp) reai)"
proof -
  from calculate_reai_columns [OF assms] obtain ts ls lic ps wt wl wc wp where
    r: "r = df" and
    b: "all_between 0 100 ts" "all_between 0 100 ls" "all_between 0 100 lic"
      "all_between 0 100 ps" and
    ws: "map_of (weights self) ''transportation'' = Some wt"
      "map_of (weights self) ''labor_market'' = Some wl"
      "map_of (weights self) ''licensing'' = Some wc"
      "map_of (weights self) ''policy'' = Some wp" and
    cols: "map_of (h' df) ''transportation_score'' = Some (NumCol ts)"
      "map_of (h' df) ''labor_market_score'' = Some (NumCol ls)"
      "map_of (h' df) ''licensing_score'' = Some (NumCol lic)"
      "map_of (h' df) ''policy_score'' = Some (NumCol ps)"
      "map_of (h' df) ''REAI'' = Some (NumCol
         (add_series (add_series (add_series (map (\<lambda>x. x * wt) ts) (map (\<lambda>x. x * wl) ls))
            (map (\<lambda>x. x * wc) lic)) (map (\<lambda>x. x * wp) ps)))"
    by blast
  show ?thesis
    using b cols ws all_between_weighted [OF b] unfolding r by auto
qed

lemma skewed_calculate:
  "calculate_reai skewed_engine 0 example_store =
     (Inr 0, example_store(0 :=
        example_table @
        [(''transportation_score'', NumCol [100, 0]),
         (''labor_market_score'', NumCol [0, 100]),
         (''licensing_score'', NumCol [50, 50]),
         (''policy_score'', NumCol [25, 75]),
         (''REAI'', NumCol [200, - 100]),
         (''REAI_rank'', IntCol [1, 2])]))"
  by (simp add: calculate_reai_def setitem_def Let_def skewed_engine_def
      example_store_def example_table_def calculate_transportation_score_def
      calculate_labor_market_score_def calculate_licensing_score_def
      calculate_policy_score_def weighted_sum_def weighted_term_def weight_of_def
      getitem_def err_bind_def normalize_num_def normalize_int_def add_series_def rank_min_desc_def
      numeral_2_eq_2)

lemma stale_calculate:
  "calculate_reai default_engine 0 stale_store =
     (Inr 0, stale_store(0 :=
        example_table @
        [(''REAI'', NumCol [175 / 4, 225 / 4]),
         (''transportation_score'', NumCol [100, 0]),
         (''labor_market_score'', NumCol [0, 100]),
         (''licensing_score'', NumCol [50, 50]),
         (''policy_score'', NumCol [25, 75]),
         (''REAI_rank'', IntCol [2, 1])]))"
  by (simp add: calculate_reai_def setitem_def Let_def default_engine_def
      stale_store_def example_table_def calculate_transportation_score_def
      calculate_labor_market_score_def calculate_licensing_score_def
      calculate_policy_score_def weighted_sum_def weighted_term_def weight_of_def
      getitem_def err_bind_def normalize_num_def normalize_int_def add_series_def rank_min_desc_def
      numeral_2_eq_2)

lemma example_moderate: "moderate (example_store 0)"
  by (simp add: moderate_def moderate_column_def indicator_columns_def example_store_def
      example_table_def)

text \<open>
  The example table under the default weights: composites 43.75 and 56.25, between 0 and
  \<open>100 * 0.30 + 100 * 0.35 + 100 * 0.20 + 100 * 0.15\<close>.
\<close>

theorem calculate_reai_scores_bounded_witness:
  "fst (calculate_reai default_engine 0 example_store) = Inr 0 \<and>
   moderate (example_store 0) \<and>
   map_of (snd (calculate_reai default_engine 0 example_store) 0) ''REAI'' =
     Some (NumCol [175 / 4, 225 / 4]) \<and>
   all_between 0 (100 * (30 / 100) + 100 * (35 / 100) + 100 * (20 / 100) + 100 * (15 / 100))
     [175 / 4, 225 / 4]"
proof -
  let ?h' = "snd (calculate_reai default_engine 0 example_store)"
  have e: "calculate_reai default_engine 0 example_store = (Inr 0, ?h')"
    by (simp add: example_calculate)
  have v: "map_of (?h' 0) ''REAI'' = Some (NumCol [175 / 4, 225 / 4])"
    by (simp add: example_calculate example_result_def example_table_def)
  from calculate_reai_scores_bounded [OF e example_moderate] obtain reai where
    c: "map_of (?h' 0) ''REAI'' = Some (NumCol reai)" and
    i: "\<forall>wt wl wc wp.
        map_of (weights default_engine) ''transportation'' = Some wt \<and>
        map_of (weights default_engine) ''labor_market'' = Some wl \<and>
        map_of (weights default_engine) ''licensing'' = Some wc \<and>
        map_of (weights default_engine) ''policy'' = Some wp \<and>
        0 \<le> wt \<and> 0 \<le> wl \<and> 0 \<le> wc \<and> 0 \<le> wp \<longrightarrow>
        all_between 0 (100 * wt + 100 * wl + 100 * wc + 100 * wp) reai"
    by blast
  from c v have "reai = [175 / 4, 225 / 4]" by simp
  moreover from i [rule_format, of "30 / 100" "35 / 100" "20 / 100" "15 / 100"]
  have "all_between 0 (100 * (30 / 100) + 100 * (35 / 100) + 100 * (20 / 100) +
      100 * (15 / 100)) reai"
    by (simp add: default_engine_def)
  moreover have "fst (calculate_reai default_engine 0 example_store) = Inr 0"
    by (simp add: example_calculate)
  ultimately show ?thesis using v example_moderate by simp
qed

text \<open>
  C3 as stated fails for the composite: the weights 2, -1, 0, 0 sum to 1, construction
  accepts them, and the example table gets the composites 200 and -100.
\<close>

theorem negative_weight_counterexample:
  "init (Some [(''transportation'', 2), (''labor_market'', - 1),
               (''licensing'', 0), (''policy'', 0)]) = Inr skewed_engine \<and>
   fst (calculate_reai skewed_engine 0 example_store) = Inr 0 \<and>
   map_of (snd (calculate_reai skewed_engine 0 example_store) 0) ''REAI'' =
     Some (NumCol [200, - 100]) \<and>
   \<not> all_between 0 100 [200, - 100]"
proof -
  have "init (Some [(''transportation'', 2), (''labor_market'', - 1),
               (''licensing'', 0), (''policy'', 0)]) = Inr skewed_engine"
    by (simp add: init_def validate_weights_def isclose_one sum_values_def
        skewed_engine_def Let_def)
  moreover have "fst (calculate_reai skewed_engine 0 example_store) = Inr 0"
    by (simp add: skewed_calculate)
  moreover have
    "map_of (snd (calculate_reai skewed_engine 0 example_store) 0) ''REAI'' =
       Some (NumCol [200, - 100])"
    by (simp add: skewed_calculate example_table_def)
  moreover have "\<not> all_between 0 100 [200, - 100]"
    by (simp add: all_between_def)
  ultimately show ?thesis by simp
qed

text \<open>
  C10, as the code has it. A successful \<^verbatim>\<open>calculate_reai\<close> returns the reference it
  was given; no other table of the store changes; the table it was given now has the six
  derived columns, its column names are the old ones and the six derived ones, and every
  column whose name is not one of the six derived names has the values it had before.
\<close>

theorem calculate_reai_in_place:
  assumes "calculate_reai self df h = (Inr r, h')"
  shows "r = df \<and>
     (\<forall>other. other \<noteq> df \<longrightarrow> h' other = h other) \<and>
     list_all (\<lambda>name. map_of (h' df) name \<noteq> None) derived_columns \<and>
     fst ` set (h' df) = fst ` set (h df) \<union> set derived_columns \<and>
     (\<forall>name. name \<notin> set derived_columns \<longrightarrow> map_of (h' df) name = map_of (h df) name)"
proof -
  from calculate_reai_Inr [OF assms] obtain ts ls lic ps reai where
    r: "r = df" and
    h': "h' = h(df :=
       AList.update ''REAI_rank'' (IntCol (rank_min_desc reai))
         (AList.update ''REAI'' (NumCol reai)
           (AList.update ''policy_score'' (NumCol ps)
             (AList.update ''licensing_score'' (NumCol lic)
               (AList.update ''labor_market_score'' (NumCol ls)
                 (AList.update ''transportation_score'' (NumCol ts) (h df)))))))"
    by blast
  have a: "\<forall>other. other \<noteq> df \<longrightarrow> h' other = h other" by (simp add: h')
  have b: "list_all (\<lambda>name. map_of (h' df) name \<noteq> None) derived_columns"
    by (simp add: h' derived_columns_def update_conv')
  have c: "fst ` set (h' df) = fst ` set (h df) \<union> set derived_columns"
    by (simp add: h' derived_columns_def dom_update insert_commute)
  have d: "\<forall>name. name \<notin> set derived_columns \<longrightarrow> map_of (h' df) name = map_of (h df) name"
    by (simp add: h' derived_columns_def update_conv')
  from r a b c d show ?thesis by blast
qed

theorem calculate_reai_in_place_witness:
  "fst (calculate_reai default_engine 0 example_store) = Inr 0 \<and>
   snd (calculate_reai default_engine 0 example_store) 0 = example_result \<and>
   snd (calculate_reai default_engine 0 example_store) 1 = example_store 1 \<and>
   map_of (snd (calculate_reai default_engine 0 example_store) 0) ''pct_no_vehicle'' =
     map_of (example_store 0) ''pct_no_vehicle'' \<and>
   list_all (\<lambda>name. map_of (snd (calculate_reai default_engine 0 example_store) 0) name \<noteq> None)
     derived_columns"
proof -
  let ?h' = "snd (calculate_reai default_engine 0 example_store)"
  have e: "calculate_reai default_engine 0 example_store = (Inr 0, ?h')"
    by (simp add: example_calculate)
  have n: "''pct_no_vehicle'' \<notin> set derived_columns" by (simp add: derived_columns_def)
  note t = calculate_reai_in_place [OF e]
  have "fst (calculate_reai default_engine 0 example_store) = Inr 0"
    by (simp add: example_calculate)
  moreover have "?h' 0 = example_result" by (simp add: example_calculate)
  moreover from t have "?h' 1 = example_store 1" by simp
  moreover from t n have "map_of (?h' 0) ''pct_no_vehicle'' =
     map_of (example_store 0) ''pct_no_vehicle''" by blast
  moreover from t have "list_all (\<lambda>name. map_of (?h' 0) name \<noteq> None) derived_columns"
    by blast
  ultimately show ?thesis by blast
qed

text \<open>
  C10 as stated fails: an input column named \<^verbatim>\<open>REAI\<close> holding zeros is overwritten by
  the computed composites.
\<close>

theorem calculate_reai_overwrites_counterexample:
  "map_of (stale_store 0) ''REAI'' = Some (NumCol [0, 0]) \<and>
   fst (calculate_reai default_engine 0 stale_store) = Inr 0 \<and>
   map_of (snd (calculate_reai default_engine 0 stale_store) 0) ''REAI'' =
     Some (NumCol [175 / 4, 225 / 4])"
  by (simp add: stale_calculate) (simp add: stale_store_def example_table_def)

section \<open>Sensitivity analysis\<close>























section \<open>Summary statistics of a scored table\<close>

lemma get_summary_statistics_numeric:
  assumes "map_of df ''REAI'' = Some (NumCol reai)"
    and "map_of df ''transportation_score'' = Some (NumCol ts)"
    and "map_of df ''labor_market_score'' = Some (NumCol ls)"
    and "map_of df ''licensing_score'' = Some (NumCol lic)"
    and "map_of df ''policy_score'' = Some (NumCol ps)"
    and "map snd (weights self) = [w1, w2, w3, w4]"
  shows "get_summary_statistics self df =
     Inr [(''REAI'', summary_row 1 reai),
          (''transportation_score'', summary_row w1 ts),
          (''labor_market_score'', summary_row w2 ls),
          (''licensing_score'', summary_row w3 lic),
          (''policy_score'', summary_row w4 ps)]"
  using assms
  by (simp add: get_summary_statistics_def Let_def describe_def summary_row_def)

lemma four_keys:
  assumes "map fst w = [k1, k2, k3, k4]"
  shows "w = [(k1, snd (w ! 0)), (k2, snd (w ! 1)), (k3, snd (w ! 2)), (k4, snd (w ! 3))]"
proof -
  from assms have "length (map fst w) = 4" by simp
  then have "length w = 4" by simp
  then obtain a b c d where w: "w = [a, b, c, d]"
    by (auto simp: numeral_eq_Suc length_Suc_conv)
  with assms show ?thesis by (cases a, cases b, cases c, cases d) simp
qed

text \<open>
  C8, as the code has it. On a table on which \<^verbatim>\<open>calculate_reai\<close> has run, the summary
  of an engine whose weight mapping lists exactly the four components in the order
  transportation, labor_market, licensing, policy has one row for the composite and one
  for each component score, in that order; each row holds the weight, then the mean, the
  standard deviation, the minimum, the 25th, 50th and 75th percentiles and the maximum of
  its column, and no count. The weight is 1 on the composite row and the engine's weight
  for the component on each component row.
\<close>

theorem summary_statistics_table:
  assumes "calculate_reai scorer df h = (Inr r, h')"
    and "map fst (weights self) =
      [''transportation'', ''labor_market'', ''licensing'', ''policy'']"
  shows "\<exists>reai ts ls lic ps wt wl wc wp.
     map_of (h' r) ''REAI'' = Some (NumCol reai) \<and>
     map_of (h' r) ''transportation_score'' = Some (NumCol ts) \<and>
     map_of (h' r) ''labor_market_score'' = Some (NumCol ls) \<and>
     map_of (h' r) ''licensing_score'' = Some (NumCol lic) \<and>
     map_of (h' r) ''policy_score'' = Some (NumCol ps) \<and>
     weights self = [(''transportation'', wt), (''labor_market'', wl),
                     (''licensing'', wc), (''policy'', wp)] \<and>
     get_summary_statistics self (h' r) =
       Inr [(''REAI'', summary_row 1 reai),
            (''transportation_score'', summary_row wt ts),
            (''labor_market_score'', summary_row wl ls),
            (''licensing_score'', summary_row wc lic),
            (''policy_score'', summary_row wp ps)]"
proof -
  from calculate_reai_Inr [OF assms(1)] obtain ts ls lic ps reai where
    r: "r = df" and
    h': "h' = h(df :=
       AList.update ''REAI_rank'' (IntCol (rank_min_desc reai))
         (AList.update ''REAI'' (NumCol reai)
           (AList.update ''policy_score'' (NumCol ps)
             (AList.update ''licensing_score'' (NumCol lic)
               (AList.update ''labor_market_score'' (NumCol ls)
                 (AList.update ''transportation_score'' (NumCol ts) (h df)))))))"
    by blast
  have c: "map_of (h' r) ''REAI'' = Some (NumCol reai)"
    "map_of (h' r) ''transportation_score'' = Some (NumCol ts)"
    "map_of (h' r) ''labor_market_score'' = Some (NumCol ls)"
    "map_of (h' r) ''licensing_score'' = Some (NumCol lic)"
    "map_of (h' r) ''policy_score'' = Some (NumCol ps)"
    by (simp_all add: r h' update_conv')
  let ?w = "weights self"
  note w = four_keys [OF assms(2)]
  have s: "map snd ?w = [snd (?w ! 0), snd (?w ! 1), snd (?w ! 2), snd (?w ! 3)]"
    by (subst w) simp
  from get_summary_statistics_numeric [OF c s] c w show ?thesis by blast
qed

theorem summary_statistics_table_witness:
  "get_summary_statistics default_engine
     (snd (calculate_reai default_engine 0 example_store) 0) = Inr example_summary"
proof -
  let ?h' = "snd (calculate_reai default_engine 0 example_store)"
  have e: "calculate_reai default_engine 0 example_store = (Inr 0, ?h')"
    by (simp add: example_calculate)
  have k: "map fst (weights default_engine) =
      [''transportation'', ''labor_market'', ''licensing'', ''policy'']"
    by (simp add: default_engine_def)
  have f: "?h' 0 = example_result" by (simp add: example_calculate)
  from summary_statistics_table [OF e k] obtain reai ts ls lic ps wt wl wc wp where
    c: "map_of (?h' 0) ''REAI'' = Some (NumCol reai)"
      "map_of (?h' 0) ''transportation_score'' = Some (NumCol ts)"
      "map_of (?h' 0) ''labor_market_score'' = Some (NumCol ls)"
      "map_of (?h' 0) ''licensing_score'' = Some (NumCol lic)"
      "map_of (?h' 0) ''policy_score'' = Some (NumCol ps)" and
    w: "weights default_engine = [(''transportation'', wt), (''labor_market'', wl),
                     (''licensing'', wc), (''policy'', wp)]" and
    g: "get_summary_statistics default_engine (?h' 0) =
       Inr [(''REAI'', summary_row 1 reai),
            (''transportation_score'', summary_row wt ts),
            (''labor_market_score'', summary_row wl ls),
            (''licensing_score'', summary_row wc lic),
            (''policy_score'', summary_row wp ps)]"
    by blast
  from c have "reai = [175 / 4, 225 / 4]" "ts = [100, 0]" "ls = [0, 100]"
    "lic = [50, 50]" "ps = [25, 75]"
    by (simp_all add: f example_result_def example_table_def)
  moreover from w have "wt = 30 / 100" "wl = 35 / 100" "wc = 20 / 100" "wp = 15 / 100"
    by (simp_all add: default_engine_def)
  ultimately show ?thesis using g by (simp only: example_summary_def)
qed

text \<open>C8 as stated fails: the returned rows have no \<^verbatim>\<open>count\<close> entry.\<close>

theorem summary_without_count_counterexample:
  "get_summary_statistics default_engine example_result = Inr example_summary \<and>
   map_of example_summary ''REAI'' = Some (summary_row 1 [175 / 4, 225 / 4]) \<and>
   map fst (summary_row 1 [175 / 4, 225 / 4]) =
     [''weight'', ''mean'', ''std'', ''min'', ''25%'', ''50%'', ''75%'', ''max''] \<and>
   map_of (summary_row 1 [175 / 4, 225 / 4]) ''count'' = None"
proof -
  have "get_summary_statistics default_engine example_result = Inr example_summary"
    unfolding example_summary_def
    by (rule get_summary_statistics_numeric)
      (simp_all add: example_result_def example_table_def default_engine_def)
  moreover have "map_of example_summary ''REAI'' = Some (summary_row 1 [175 / 4, 225 / 4])"
    by (simp add: example_summary_def)
  moreover have "map fst (summary_row 1 [175 / 4, 225 / 4]) =
     [''weight'', ''mean'', ''std'', ''min'', ''25%'', ''50%'', ''75%'', ''max'']"
    by (simp add: summary_row_def)
  moreover have "map_of (summary_row 1 [175 / 4, 225 / 4]) ''count'' = None"
    by (simp add: summary_row_def)
  ultimately show ?thesis by simp
qed

text \<open>
  The weight column is assigned by position, in the insertion order of the engine's
  weight mapping: with the default weights inserted in another order, the transportation
  row shows the labour-market weight.
\<close>

lemma summary_weight_by_position:
  "init (Some (weights reordered_engine)) = Inr reordered_engine \<and>
   map_of (weights reordered_engine) ''transportation'' = Some (30 / 100) \<and>
   map_of (weights reordered_engine) ''labor_market'' = Some (35 / 100) \<and>
   get_summary_statistics reordered_engine example_result =
     Inr [(''REAI'', summary_row 1 [175 / 4, 225 / 4]),
          (''transportation_score'', summary_row (35 / 100) [100, 0]),
          (''labor_market_score'', summary_row (30 / 100) [0, 100]),
          (''licensing_score'', summary_row (20 / 100) [50, 50]),
          (''policy_score'', summary_row (15 / 100) [25, 75])]"
proof -
  have "init (Some (weights reordered_engine)) = Inr reordered_engine"
    by (simp add: init_def validate_weights_def isclose_one sum_values_def
        reordered_engine_def Let_def)
  moreover have "get_summary_statistics reordered_engine example_result =
     Inr [(''REAI'', summary_row 1 [175 / 4, 225 / 4]),
          (''transportation_score'', summary_row (35 / 100) [100, 0]),
          (''labor_market_score'', summary_row (30 / 100) [0, 100]),
          (''licensing_score'', summary_row (20 / 100) [50, 50]),
          (''policy_score'', summary_row (15 / 100) [25, 75])]"
    by (rule get_summary_statistics_numeric)
      (simp_all add: example_result_def example_table_def reordered_engine_def)
  ultimately show ?thesis by (simp add: reordered_engine_def)
qed

end
